theory Spec2Isabelle
  imports Main
begin

section \<open>Result protocol: \<open>src/server/state\<close>\<close>

text \<open>
  \<^verbatim>\<open>type FormErrors = Record<path, message>\<close> with both \<open>path\<close> and \<open>message\<close> aliases of
  \<open>string\<close>: an object used as a dictionary from strings to strings. The model is a map
  whose domain is the set of own properties of the object.
\<close>

type_synonym FormErrors = "string \<rightharpoonup> string"

text \<open>
  \<^verbatim>\<open>FormState\<close> is a union of three object types told apart by the property \<open>state\<close>.
  The record lists every property that occurs in one of the three object types; a
  property that an object literal does not write is \<open>None\<close>. The property of the success
  variant is spelled \<open>messgae\<close> in the source, and the model keeps that spelling.
\<close>

record FormState =
  state :: string
  success :: "bool option"
  messgae :: "string option"
  errors :: "FormErrors option"

definition SuccessState :: "string \<Rightarrow> FormState" where
  "SuccessState msg =
     \<lparr>state = ''success'', success = Some True, messgae = Some msg, errors = None\<rparr>"

definition FailState :: "FormErrors \<Rightarrow> FormState" where
  "FailState errs =
     \<lparr>state = ''fail'', success = Some False, messgae = None, errors = Some errs\<rparr>"

definition DefaultState :: FormState where
  "DefaultState = \<lparr>state = ''default'', success = None, messgae = None, errors = None\<rparr>"

section \<open>Error projector: \<open>src/server/errors/zod_errors\<close>\<close>

text \<open>
  A validation failure of the schema library is a \<open>ZodError\<close>: an object whose property
  \<open>errors\<close> reads the sequence of its issues. An issue has a \<open>path\<close>, an array of strings
  and numbers (\<^verbatim>\<open>(string | number)[]\<close>), and a \<open>message\<close>. The numbers of a path are
  array indices: whole numbers from 0, small enough that their string form is their
  decimal digits.
\<close>

datatype path_elem = PathString string | PathNumber nat

record ZodIssue =
  path :: "path_elem list"
  message :: string

datatype ZodError = ZodError (issues: "ZodIssue list")

text \<open>
  A value used as a property key is converted to a string first. A number becomes its
  decimal digits, and \<open>undefined\<close>, which is what \<^verbatim>\<open>err.path[0]\<close> reads from an empty
  array, becomes the string \<open>undefined\<close>.
\<close>

fun number_to_string :: "nat \<Rightarrow> string" where
  "number_to_string n =
     (if n < 10 then [''0123456789'' ! n]
      else number_to_string (n div 10) @ [''0123456789'' ! (n mod 10)])"

fun path0_key :: "path_elem list \<Rightarrow> string" where
  "path0_key [] = ''undefined''"
| "path0_key (PathString s # rest) = s"
| "path0_key (PathNumber n # rest) = number_to_string n"

text \<open>
  \<^verbatim>\<open>formError[key] = value\<close> on an object created by the literal \<^verbatim>\<open>{}\<close>, with a string
  as value. The object inherits the accessor \<open>__proto__\<close> from \<open>Object.prototype\<close>, whose
  setter ignores a value that is neither an object nor \<open>null\<close>: under that one key the
  assignment stores nothing. Under every other key it creates the own property or
  overwrites it.
\<close>

definition assign :: "FormErrors \<Rightarrow> string \<Rightarrow> string \<Rightarrow> FormErrors" where
  "assign formError key val = (if key = ''__proto__'' then formError else formError(key \<mapsto> val))"

text \<open>
  \<^verbatim>\<open>errors.errors.map((err) => (formError[err.path[0]] = err.message))\<close> visits the issues
  from the first to the last and assigns into the one object \<open>formError\<close>, which starts
  empty; the array that \<open>map\<close> builds is dropped.
\<close>

definition ZodFormError :: "ZodError \<Rightarrow> FormErrors" where
  "ZodFormError errs =
     foldl (\<lambda>formError err. assign formError (path0_key (path err)) (message err))
       Map.empty (issues errs)"

section \<open>Form decoder: \<open>src/lib/zod/index\<close>\<close>

text \<open>
  A \<open>FormData\<close> is an ordered sequence of entries, a name with a value, in which a name
  may occur several times. A value is a string or a file; of a file the model keeps
  the name only, since the decoder never looks inside a value.
\<close>

datatype FormDataEntryValue = EntryString string | EntryFile string

type_synonym FormData = "(string \<times> FormDataEntryValue) list"

type_synonym form = "string \<rightharpoonup> FormDataEntryValue"

text \<open>
  \<^verbatim>\<open>Object.fromEntries\<close> walks the entries in order and defines, for each, the data
  property of that name on a fresh object, replacing a property defined before. It
  defines properties and does not assign them, so no key is special here.
\<close>

definition fromEntries :: "FormData \<Rightarrow> form" where
  "fromEntries entries = foldl (\<lambda>obj (k, v). obj(k \<mapsto> v)) Map.empty entries"

text \<open>
  What a \<open>catch\<close> clause can receive. The schema library throws a \<open>ZodError\<close> for a
  form that breaks the schema, the engine throws a \<open>TypeError\<close> for a property read on
  \<open>undefined\<close>, and a callback inside a schema may throw any value whatever. A value of
  a type \<^verbatim>\<open>T | undefined\<close> is a \<open>T option\<close> with \<open>None\<close> for \<open>undefined\<close>; the value
  carried by a \<open>throw\<close> is of that kind, since \<^verbatim>\<open>throw undefined\<close> is a legal statement.
\<close>

datatype exn = Thrown_ZodError ZodError | TypeError | Thrown_other string

type_synonym thrown = "exn option"

text \<open>
  The schema is a parameter of the decoder and its class belongs to the schema
  library, so the model takes its one method used here, \<open>parse\<close>, as a function: on a
  form it returns the decoded value (\<open>Inr\<close>) or throws (\<open>Inl\<close>). A schema of the type
  \<^verbatim>\<open>ZodObject<any> | ZodEffects<ZodObject<any>>\<close> may end in a transform, and a
  transform may return anything, so the decoded value is of the kind
  \<^verbatim>\<open>T | undefined\<close> as well.
\<close>

datatype 'a Schema = Schema (parse: "form \<Rightarrow> thrown + 'a option")

record 'a ParseResult =
  data :: "'a option"
  errors :: "exn option"

text \<open>
  \<^verbatim>\<open>(schema as Schema).parse(form)\<close>: the cast does nothing when the program runs, so
  with the optional argument left out the property \<open>parse\<close> is read on \<open>undefined\<close>,
  which throws a \<open>TypeError\<close>.
\<close>

fun call_parse :: "'a Schema option \<Rightarrow> form \<Rightarrow> thrown + 'a option" where
  "call_parse None form = Inl (Some TypeError)"
| "call_parse (Some schema) form = parse schema form"

text \<open>
  The body is one \<open>try\<close> block, which returns in \<open>data\<close> whatever \<open>parse\<close> returns
  (\<^verbatim>\<open>as ReturnType\<close> is a cast), with a \<open>catch\<close> clause that takes everything thrown
  and returns it in \<open>errors\<close>, unchanged and unexamined (\<^verbatim>\<open>err as ZodError\<close> is a cast
  too).
\<close>

definition parseFormData :: "FormData \<Rightarrow> 'a Schema option \<Rightarrow> 'a ParseResult" where
  "parseFormData formData schema =
     (let form = fromEntries formData in
      case call_parse schema form of
        Inr d \<Rightarrow> \<lparr>data = d, errors = None\<rparr>
      | Inl err \<Rightarrow> \<lparr>data = None, errors = err\<rparr>)"

text \<open>
  The schema of the login form, \<^verbatim>\<open>z.object({username: z.string().min(0, ...),
  password: z.string().min(0, ...)})\<close>, as an example of a schema: each field must be a
  string (the library reports \<open>Required\<close> for a missing one), and no string is shorter than
  0 characters. The issues come in the order of the fields, all of them in one
  \<open>ZodError\<close>. It serves as a concrete input; no theorem about every schema rests on it.
\<close>

record LoginFormData =
  username :: string
  password :: string

definition string_field :: "form \<Rightarrow> string \<Rightarrow> ZodIssue list" where
  "string_field f name =
     (case f name of
        Some (EntryString s) \<Rightarrow> []
      | Some (EntryFile n) \<Rightarrow> [\<lparr>path = [PathString name], message = ''Expected string, received object''\<rparr>]
      | None \<Rightarrow> [\<lparr>path = [PathString name], message = ''Required''\<rparr>])"

definition field_text :: "form \<Rightarrow> string \<Rightarrow> string" where
  "field_text f name = (case f name of Some (EntryString s) \<Rightarrow> s | _ \<Rightarrow> [])"

definition login_data :: "form \<Rightarrow> LoginFormData" where
  "login_data f = \<lparr>username = field_text f ''username'', password = field_text f ''password''\<rparr>"

definition LoginFormSchema :: "LoginFormData Schema" where
  "LoginFormSchema = Schema (\<lambda>f.
     (case string_field f ''username'' @ string_field f ''password'' of
        [] \<Rightarrow> Inr (Some (login_data f))
      | i # is \<Rightarrow> Inl (Some (Thrown_ZodError (ZodError (i # is))))))"

text \<open>
  Modelled from the spec: the validation performed by a schema, which is the work of the
  schema library and of no file of the repository. The specification describes a schema
  as a declarative list of expected fields with per-field constraint predicates and
  attached failure messages (section 3), and its use as running every field constraint
  against the flattened mapping, returning the typed value when none is violated and
  otherwise a failure with one entry for every violated constraint, found in a single
  pass (section 4.1).
\<close>

record FieldConstraint =
  field_path :: string
  predicate :: "FormDataEntryValue option \<Rightarrow> bool"
  failure_message :: string

definition violated :: "FieldConstraint list \<Rightarrow> form \<Rightarrow> FieldConstraint list" where
  "violated cs f = filter (\<lambda>c. \<not> predicate c (f (field_path c))) cs"

definition constraint_issue :: "FieldConstraint \<Rightarrow> ZodIssue" where
  "constraint_issue c = \<lparr>path = [PathString (field_path c)], message = failure_message c\<rparr>"

definition ValidationSchema :: "FieldConstraint list \<Rightarrow> (form \<Rightarrow> 'a) \<Rightarrow> 'a Schema" where
  "ValidationSchema cs typed = Schema (\<lambda>f.
     if violated cs f = [] then Inr (Some (typed f))
     else Inl (Some (Thrown_ZodError (ZodError (map constraint_issue (violated cs f))))))"

text \<open>
  Modelled from the spec: the value that a submitted form gives to a field. When a
  name repeats, the last occurrence in submission order is the one that counts
  (section 4.1); a name that does not occur has no value.
\<close>

definition submitted_value :: "FormData \<Rightarrow> string \<Rightarrow> FormDataEntryValue option" where
  "submitted_value formData name =
     (case filter (\<lambda>entry. fst entry = name) formData of
        [] \<Rightarrow> None
      | e # r \<Rightarrow> Some (snd (last (e # r))))"

text \<open>
  Modelled from the spec: a schema in the manner of its login scenario, which requires
  a non-empty \<open>username\<close>, a non-empty \<open>password\<close> and a non-empty \<open>email\<close>, and a
  submitted form that names \<open>username\<close> twice, empty at first and filled in at last,
  leaves \<open>password\<close> empty and does not name \<open>email\<close>.
\<close>

definition non_empty :: "FormDataEntryValue option \<Rightarrow> bool" where
  "non_empty v = (case v of Some (EntryString s) \<Rightarrow> s \<noteq> [] | _ \<Rightarrow> False)"

definition account_constraints :: "FieldConstraint list" where
  "account_constraints =
     [\<lparr>field_path = ''username'', predicate = non_empty,
        failure_message = ''Admin username is required.''\<rparr>,
      \<lparr>field_path = ''password'', predicate = non_empty,
        failure_message = ''Admin password is required.''\<rparr>,
      \<lparr>field_path = ''email'', predicate = non_empty,
        failure_message = ''Admin email is required.''\<rparr>]"

definition partly_filled_form :: FormData where
  "partly_filled_form =
     [(''username'', EntryString []), (''username'', EntryString ''admin''),
      (''password'', EntryString [])]"

text \<open>
  A schema with a callback that throws the value \<open>undefined\<close>, such as
  \<^verbatim>\<open>z.object({}).refine(() => { throw undefined })\<close>: the library calls the callback
  outside any \<open>try\<close> block of its own, so \<open>parse\<close> throws what the callback throws.
\<close>

definition schema_throwing_undefined :: "unit Schema" where
  "schema_throwing_undefined = Schema (\<lambda>f. Inl None)"

text \<open>
  A schema that ends in a transform returning the value \<open>undefined\<close>, such as
  \<^verbatim>\<open>z.object({}).transform((): any => undefined)\<close>: \<open>parse\<close> returns what the
  transform returns.
\<close>

definition schema_returning_undefined :: "unit Schema" where
  "schema_returning_undefined = Schema (\<lambda>f. Inr None)"

text \<open>
  Two concrete inputs: a failure with two issues under the path \<open>username\<close> and one
  under the path \<open>__proto__\<close>, and a submitted form that names \<open>username\<close> twice.
\<close>

definition repeated_path_failure :: ZodError where
  "repeated_path_failure = ZodError
     [\<lparr>path = [PathString ''username''], message = ''Required''\<rparr>,
      \<lparr>path = [PathString ''username''], message = ''Too short''\<rparr>,
      \<lparr>path = [PathString ''__proto__''], message = ''Invalid''\<rparr>]"

definition repeated_username :: FormData where
  "repeated_username =
     [(''username'', EntryString ''guest''), (''username'', EntryString ''admin''),
      (''password'', EntryString ''pw'')]"

section \<open>Stepping through the two folds\<close>

declare number_to_string.simps [simp del]

lemma foldl_define_other:
  "k \<notin> fst ` set es \<Longrightarrow> foldl (\<lambda>obj (k, v). obj(k \<mapsto> v)) m es k = m k"
  by (induction es arbitrary: m) (auto split: prod.splits)

lemma fromEntries_snoc: "fromEntries (xs @ [(k, v)]) = (fromEntries xs)(k \<mapsto> v)"
  by (simp add: fromEntries_def)

lemma fromEntries_last_occurrence:
  assumes "k \<notin> fst ` set ys"
  shows "fromEntries (xs @ (k, v) # ys) k = Some v"
proof -
  have "fromEntries (xs @ (k, v) # ys) =
        foldl (\<lambda>obj (k, v). obj(k \<mapsto> v)) (fromEntries (xs @ [(k, v)])) ys"
    by (simp add: fromEntries_def)
  then show ?thesis
    using assms by (simp add: foldl_define_other fromEntries_snoc)
qed

lemma assign_lookup:
  "assign m key val k =
     (if key = ''__proto__'' then m k else if k = key then Some val else m k)"
  by (simp add: assign_def)

lemma foldl_assign_lookup:
  "foldl (\<lambda>formError err. assign formError (path0_key (path err)) (message err)) m es k =
     (if k = ''__proto__'' then m k
      else case filter (\<lambda>err. path0_key (path err) = k) es of
             [] \<Rightarrow> m k
           | e # r \<Rightarrow> Some (message (last (e # r))))"
proof (induction es arbitrary: m)
  case Nil
  then show ?case by simp
next
  case (Cons a es)
  let ?F = "\<lambda>formError err. assign formError (path0_key (path err)) (message err)"
  let ?m = "assign m (path0_key (path a)) (message a)"
  have "foldl ?F m (a # es) k = foldl ?F ?m es k"
    by (simp only: foldl_Cons)
  also have "\<dots> = (if k = ''__proto__'' then ?m k
      else case filter (\<lambda>err. path0_key (path err) = k) es of
             [] \<Rightarrow> ?m k
           | e # r \<Rightarrow> Some (message (last (e # r))))"
    by (rule Cons.IH)
  also have "\<dots> = (if k = ''__proto__'' then m k
      else case filter (\<lambda>err. path0_key (path err) = k) (a # es) of
             [] \<Rightarrow> m k
           | e # r \<Rightarrow> Some (message (last (e # r))))"
    by (simp add: assign_lookup split: list.splits)
  finally show ?case .
qed

lemma ZodFormError_lookup:
  "ZodFormError (ZodError es) k =
     (if k = ''__proto__'' then None
      else case filter (\<lambda>err. path0_key (path err) = k) es of
             [] \<Rightarrow> None
           | e # r \<Rightarrow> Some (message (last (e # r))))"
  by (simp add: ZodFormError_def foldl_assign_lookup)

lemma ZodFormError_dom:
  "dom (ZodFormError (ZodError es)) =
     (\<lambda>err. path0_key (path err)) ` set es - {''__proto__''}"
proof -
  have "k \<in> dom (ZodFormError (ZodError es)) \<longleftrightarrow>
        k \<noteq> ''__proto__'' \<and> filter (\<lambda>err. path0_key (path err) = k) es \<noteq> []" for k
    by (simp add: dom_def ZodFormError_lookup split: list.splits)
  moreover have "filter (\<lambda>err. path0_key (path err) = k) es \<noteq> [] \<longleftrightarrow>
        k \<in> (\<lambda>err. path0_key (path err)) ` set es" for k
    by (auto simp: filter_empty_conv)
  ultimately show ?thesis by blast
qed



lemma foldl_define_lookup:
  "foldl (\<lambda>obj (k, v). obj(k \<mapsto> v)) m es name =
     (case filter (\<lambda>entry. fst entry = name) es of
        [] \<Rightarrow> m name
      | e # r \<Rightarrow> Some (snd (last (e # r))))"
proof (induction es arbitrary: m)
  case Nil
  then show ?case by simp
next
  case (Cons a es)
  obtain k v where a: "a = (k, v)"
    by (cases a)
  let ?F = "\<lambda>obj (k, v). obj(k \<mapsto> v)"
  have "foldl ?F m (a # es) name = foldl ?F (m(k \<mapsto> v)) es name"
    by (simp add: a)
  also have "\<dots> = (case filter (\<lambda>entry. fst entry = name) es of
        [] \<Rightarrow> (m(k \<mapsto> v)) name
      | e # r \<Rightarrow> Some (snd (last (e # r))))"
    by (rule Cons.IH)
  also have "\<dots> = (case filter (\<lambda>entry. fst entry = name) (a # es) of
        [] \<Rightarrow> m name
      | e # r \<Rightarrow> Some (snd (last (e # r))))"
    by (simp add: a split: list.splits)
  finally show ?case .
qed

lemma fromEntries_submitted_value: "fromEntries formData = submitted_value formData"
  by (rule ext) (simp add: fromEntries_def submitted_value_def foldl_define_lookup)

lemma parseFormData_thrown:
  "parse schema (fromEntries formData) = Inl err \<Longrightarrow>
   parseFormData formData (Some schema) = \<lparr>data = None, errors = err\<rparr>"
  by (simp add: parseFormData_def)

section \<open>The result protocol\<close>

text \<open>
  C2. For every string \<open>m\<close>, the empty string included, \<open>SuccessState m\<close> has the tag
  \<open>success\<close> and carries \<open>m\<close> itself as its message (the property \<open>messgae\<close>): nothing is
  trimmed, cut or rewritten.
\<close>

theorem SuccessState_wraps_message:
  "state (SuccessState m) = ''success'' \<and> messgae (SuccessState m) = Some m
   \<and> state (SuccessState '''') = ''success'' \<and> messgae (SuccessState '''') = Some ''''"
  by (simp add: SuccessState_def)

text \<open>
  C3. For every error mapping \<open>e\<close>, \<open>FailState e\<close> has the tag \<open>fail\<close> and its property
  \<open>errors\<close> is \<open>e\<close>. Equality of maps is equality key by key, so the order in which the
  keys were written plays no part.
\<close>

theorem FailState_wraps_errors:
  "state (FailState e) = ''fail'' \<and> FormState.errors (FailState e) = Some e"
  by (simp add: FailState_def)

text \<open>
  C9. What the three constructors build is consistent: \<open>SuccessState\<close> gives the tag
  \<open>success\<close> with \<open>success = true\<close> and a message, \<open>FailState\<close> gives the tag \<open>fail\<close> with
  \<open>success = false\<close> and an error mapping, \<open>DefaultState\<close> gives the tag \<open>default\<close> with no
  flag and no payload, and no other tag is ever built.
\<close>

theorem constructors_consistent:
  "state (SuccessState m) = ''success'' \<and> success (SuccessState m) = Some True
   \<and> messgae (SuccessState m) = Some m \<and> FormState.errors (SuccessState m) = None
   \<and> state (FailState e) = ''fail'' \<and> success (FailState e) = Some False
   \<and> FormState.errors (FailState e) = Some e \<and> messgae (FailState e) = None
   \<and> state DefaultState = ''default'' \<and> success DefaultState = None
   \<and> messgae DefaultState = None \<and> FormState.errors DefaultState = None
   \<and> {state (SuccessState m), state (FailState e), state DefaultState}
       \<subseteq> {''success'', ''fail'', ''default''}"
  by (simp add: SuccessState_def FailState_def DefaultState_def)

text \<open>
  C7, as the specification states it: a state with the tag \<open>fail\<close> never has an empty
  error mapping, and \<open>FailState\<close> rejects one. The constructor has no check and no way
  to fail: from the empty mapping it builds a state with the tag \<open>fail\<close> and empty errors.
\<close>

theorem FailState_empty_counterexample:
  "state (FailState Map.empty) = ''fail''
   \<and> FormState.errors (FailState Map.empty) = Some Map.empty"
  by (simp add: FailState_def)

text \<open>
  C7, amended: \<open>FailState\<close> wraps whatever it is given, so the state it builds has a
  non-empty error mapping whenever its argument is non-empty.
\<close>

theorem FailState_nonempty_errors:
  assumes "e \<noteq> Map.empty"
  shows "state (FailState e) = ''fail'' \<and> FormState.errors (FailState e) = Some e
         \<and> FormState.errors (FailState e) \<noteq> Some Map.empty"
  using assms by (simp add: FailState_def)

theorem FailState_nonempty_errors_witness:
  "[''username'' \<mapsto> ''Admin username is required.''] \<noteq> Map.empty
   \<and> state (FailState [''username'' \<mapsto> ''Admin username is required.'']) = ''fail''
   \<and> FormState.errors (FailState [''username'' \<mapsto> ''Admin username is required.''])
       = Some [''username'' \<mapsto> ''Admin username is required.'']
   \<and> FormState.errors (FailState [''username'' \<mapsto> ''Admin username is required.''])
       \<noteq> Some Map.empty"
proof -
  have h: "[''username'' \<mapsto> ''Admin username is required.''] \<noteq> Map.empty"
    by simp
  show ?thesis
    using h FailState_nonempty_errors [OF h] by simp
qed

section \<open>The error projector\<close>

text \<open>
  C1, as the specification states it: one entry for each distinct path, holding the
  message of the first issue with that path. On a failure with the issues
  (\<open>username\<close>, \<open>Required\<close>), (\<open>username\<close>, \<open>Too short\<close>), (\<open>__proto__\<close>, \<open>Invalid\<close>) the
  projector keeps \<open>Too short\<close>, the message of the later issue, and it has no entry for
  the path \<open>__proto__\<close>.
\<close>

theorem ZodFormError_first_wins_counterexample:
  "ZodFormError repeated_path_failure ''username'' = Some ''Too short''
   \<and> ZodFormError repeated_path_failure ''username'' \<noteq> Some ''Required''
   \<and> dom (ZodFormError repeated_path_failure) = {''username''}"
  by (simp add: repeated_path_failure_def ZodFormError_def assign_def)

text \<open>
  C1, amended: for every key \<open>k\<close> other than \<open>__proto__\<close>, the result has an entry under
  \<open>k\<close> exactly when some issue has \<open>k\<close> as the key of its first path element, and the
  message kept is that of the last such issue in sequence order. Each assignment
  replaces what an earlier one stored.
\<close>

theorem ZodFormError_last_wins:
  assumes "k \<noteq> ''__proto__''"
  shows "ZodFormError (ZodError es) k =
           (case filter (\<lambda>err. path0_key (path err) = k) es of
              [] \<Rightarrow> None
            | e # r \<Rightarrow> Some (message (last (e # r))))
         \<and> (k \<in> dom (ZodFormError (ZodError es)))
             = (k \<in> (\<lambda>err. path0_key (path err)) ` set es)"
  using assms by (simp add: ZodFormError_lookup ZodFormError_dom)

theorem ZodFormError_last_wins_witness:
  "''username'' \<noteq> ''__proto__''
   \<and> ZodFormError repeated_path_failure ''username'' = Some ''Too short''
   \<and> ''username'' \<in> dom (ZodFormError repeated_path_failure)"
proof -
  have h: "''username'' \<noteq> ''__proto__''"
    by simp
  show ?thesis
    using h ZodFormError_last_wins [OF h, of "issues repeated_path_failure"]
    by (simp add: repeated_path_failure_def)
qed


section \<open>The form decoder\<close>

text \<open>
  C4. When a name occurs more than once in the submitted form, the flattened object
  holds the value of its last occurrence, and that object is what the schema parses:
  the result of the decoder is built from the outcome of \<open>parse\<close> on it.
\<close>

theorem parseFormData_last_key_wins:
  assumes "k \<notin> fst ` set later"
  shows "fromEntries (earlier @ (k, v) # later) k = Some v
         \<and> parseFormData (earlier @ (k, v) # later) (Some schema) =
             (case parse schema (fromEntries (earlier @ (k, v) # later)) of
                Inr d \<Rightarrow> \<lparr>data = d, errors = None\<rparr>
              | Inl err \<Rightarrow> \<lparr>data = None, errors = err\<rparr>)"
  using assms by (simp add: fromEntries_last_occurrence parseFormData_def)

theorem parseFormData_last_key_wins_witness:
  "''username'' \<notin> fst ` set [(''password'', EntryString ''pw'')]
   \<and> fromEntries repeated_username ''username'' = Some (EntryString ''admin'')
   \<and> parseFormData repeated_username (Some LoginFormSchema) =
       \<lparr>data = Some \<lparr>username = ''admin'', password = ''pw''\<rparr>, errors = None\<rparr>"
proof -
  have h: "''username'' \<notin> fst ` set [(''password'', EntryString ''pw'')]"
    by simp
  have parts: "repeated_username =
      [(''username'', EntryString ''guest'')]
        @ (''username'', EntryString ''admin'') # [(''password'', EntryString ''pw'')]"
    by (simp add: repeated_username_def)
  have form: "fromEntries repeated_username =
      [''username'' \<mapsto> EntryString ''admin'', ''password'' \<mapsto> EntryString ''pw'']"
    by (auto simp: repeated_username_def fromEntries_def)
  show ?thesis
    using h parseFormData_last_key_wins [OF h,
        of "[(''username'', EntryString ''guest'')]" "EntryString ''admin''" LoginFormSchema]
    unfolding parts [symmetric] form
    by (simp add: LoginFormSchema_def string_field_def login_data_def field_text_def)
qed

text \<open>
  C5, as the specification states it: for every form and schema exactly one of \<open>data\<close>
  and \<open>errors\<close> is defined. A schema whose \<open>parse\<close> throws the value \<open>undefined\<close> gives a
  result with both undefined, since the \<open>catch\<close> clause stores the thrown value as it
  is; and so does a schema whose \<open>parse\<close> returns the value \<open>undefined\<close>, since the \<open>try\<close>
  block stores the returned value as it is.
\<close>

theorem parseFormData_both_absent_counterexample:
  "data (parseFormData [] (Some schema_throwing_undefined)) = None
   \<and> ParseResult.errors (parseFormData [] (Some schema_throwing_undefined)) = None
   \<and> data (parseFormData [] (Some schema_returning_undefined)) = None
   \<and> ParseResult.errors (parseFormData [] (Some schema_returning_undefined)) = None"
  by (simp add: parseFormData_def schema_throwing_undefined_def
      schema_returning_undefined_def)

text \<open>
  C5, amended: whenever the parse step neither throws the value \<open>undefined\<close> nor returns
  the value \<open>undefined\<close>, exactly one of \<open>data\<close> and \<open>errors\<close> is defined. The parse step
  is the call with the schema given or absent, so the case of the absent schema is
  covered.
\<close>

theorem parseFormData_exactly_one:
  assumes "call_parse schema (fromEntries formData) \<noteq> Inl None"
    and "call_parse schema (fromEntries formData) \<noteq> Inr None"
  shows "(data (parseFormData formData schema) \<noteq> None
            \<and> ParseResult.errors (parseFormData formData schema) = None)
         \<or> (data (parseFormData formData schema) = None
            \<and> ParseResult.errors (parseFormData formData schema) \<noteq> None)"
  using assms by (auto simp: parseFormData_def split: sum.splits)

theorem parseFormData_exactly_one_witness:
  "call_parse (Some LoginFormSchema) (fromEntries [(''username'', EntryString ''admin'')])
     \<noteq> Inl None
   \<and> call_parse (Some LoginFormSchema) (fromEntries [(''username'', EntryString ''admin'')])
     \<noteq> Inr None
   \<and> data (parseFormData [(''username'', EntryString ''admin'')] (Some LoginFormSchema)) = None
   \<and> ParseResult.errors
        (parseFormData [(''username'', EntryString ''admin'')] (Some LoginFormSchema))
       = Some (Thrown_ZodError (ZodError
           [\<lparr>path = [PathString ''password''], message = ''Required''\<rparr>]))
   \<and> call_parse (Some LoginFormSchema) (fromEntries repeated_username) \<noteq> Inl None
   \<and> call_parse (Some LoginFormSchema) (fromEntries repeated_username) \<noteq> Inr None
   \<and> data (parseFormData repeated_username (Some LoginFormSchema))
       = Some \<lparr>username = ''admin'', password = ''pw''\<rparr>
   \<and> ParseResult.errors (parseFormData repeated_username (Some LoginFormSchema)) = None"
proof -
  have t: "call_parse (Some LoginFormSchema)
             (fromEntries [(''username'', EntryString ''admin'')]) \<noteq> Inl None"
    by (simp add: LoginFormSchema_def string_field_def fromEntries_def)
  have r: "call_parse (Some LoginFormSchema)
             (fromEntries [(''username'', EntryString ''admin'')]) \<noteq> Inr None"
    by (simp add: LoginFormSchema_def string_field_def fromEntries_def)
  have form: "fromEntries repeated_username =
      [''username'' \<mapsto> EntryString ''admin'', ''password'' \<mapsto> EntryString ''pw'']"
    by (auto simp: repeated_username_def fromEntries_def)
  have t': "call_parse (Some LoginFormSchema) (fromEntries repeated_username) \<noteq> Inl None"
    unfolding form by (simp add: LoginFormSchema_def string_field_def)
  have r': "call_parse (Some LoginFormSchema) (fromEntries repeated_username) \<noteq> Inr None"
    unfolding form by (simp add: LoginFormSchema_def string_field_def)
  have failing: "parseFormData [(''username'', EntryString ''admin'')] (Some LoginFormSchema)
      = \<lparr>data = None, errors = Some (Thrown_ZodError (ZodError
           [\<lparr>path = [PathString ''password''], message = ''Required''\<rparr>]))\<rparr>"
    by (simp add: parseFormData_def LoginFormSchema_def string_field_def fromEntries_def)
  have passing: "parseFormData repeated_username (Some LoginFormSchema)
      = \<lparr>data = Some \<lparr>username = ''admin'', password = ''pw''\<rparr>, errors = None\<rparr>"
    unfolding parseFormData_def form
    by (simp add: LoginFormSchema_def string_field_def login_data_def field_text_def)
  show ?thesis
    using t r t' r' parseFormData_exactly_one [OF t r] parseFormData_exactly_one [OF t' r']
    unfolding failing passing
    by simp
qed

text \<open>
  C6. A submitted form that violates \<open>k\<close> constraints of the schema, with \<open>k\<close> at least
  one, is decoded to the error branch, and the failure in it has \<open>k\<close> entries, one for
  every violated constraint in the order of the schema. The violated constraints are
  counted on the submitted form itself, each field read at the last occurrence of its
  name: the decoder has to flatten the form as the specification says, hand the
  flattened form to the schema, and return the failure whole, cutting nothing after
  the first entry.
\<close>

theorem parseFormData_accumulates:
  assumes "length (violated cs (submitted_value formData)) = k" and "0 < k"
  shows "data (parseFormData formData (Some (ValidationSchema cs typed))) = None
         \<and> ParseResult.errors (parseFormData formData (Some (ValidationSchema cs typed)))
             = Some (Thrown_ZodError (ZodError
                 (map constraint_issue (violated cs (submitted_value formData)))))
         \<and> (case ParseResult.errors (parseFormData formData (Some (ValidationSchema cs typed))) of
               Some (Thrown_ZodError failure) \<Rightarrow> length (issues failure) = k
             | _ \<Rightarrow> False)"
proof -
  have flat: "fromEntries formData = submitted_value formData"
    by (rule fromEntries_submitted_value)
  from assms have "violated cs (submitted_value formData) \<noteq> []"
    by auto
  then have "parse (ValidationSchema cs typed) (fromEntries formData)
      = Inl (Some (Thrown_ZodError (ZodError
          (map constraint_issue (violated cs (submitted_value formData))))))"
    unfolding flat by (simp add: ValidationSchema_def)
  then have "parseFormData formData (Some (ValidationSchema cs typed))
      = \<lparr>data = None, errors = Some (Thrown_ZodError (ZodError
          (map constraint_issue (violated cs (submitted_value formData)))))\<rparr>"
    by (rule parseFormData_thrown)
  with assms show ?thesis
    by simp
qed

theorem parseFormData_accumulates_witness:
  "length (violated account_constraints (submitted_value partly_filled_form)) = 2
   \<and> (0::nat) < 2
   \<and> data (parseFormData partly_filled_form
        (Some (ValidationSchema account_constraints login_data))) = None
   \<and> ParseResult.errors (parseFormData partly_filled_form
        (Some (ValidationSchema account_constraints login_data)))
       = Some (Thrown_ZodError (ZodError
           [\<lparr>path = [PathString ''password''], message = ''Admin password is required.''\<rparr>,
            \<lparr>path = [PathString ''email''], message = ''Admin email is required.''\<rparr>]))"
proof -
  have v: "violated account_constraints (submitted_value partly_filled_form) =
      [\<lparr>field_path = ''password'', predicate = non_empty,
          failure_message = ''Admin password is required.''\<rparr>,
       \<lparr>field_path = ''email'', predicate = non_empty,
          failure_message = ''Admin email is required.''\<rparr>]"
    by (simp add: violated_def account_constraints_def submitted_value_def
        partly_filled_form_def non_empty_def)
  have h: "length (violated account_constraints (submitted_value partly_filled_form)) = 2"
    unfolding v by simp
  have k: "(0::nat) < 2"
    by simp
  show ?thesis
    using h k parseFormData_accumulates [OF h k, of login_data]
    unfolding v
    by (simp add: constraint_issue_def)
qed

text \<open>
  C8. With the schema left out the parse step throws a \<open>TypeError\<close>, for the read of a
  property on \<open>undefined\<close>, and the decoder returns it in \<open>errors\<close> with \<open>data\<close> undefined:
  validation is not skipped, nothing succeeds, and nothing escapes the call.
\<close>

theorem parseFormData_schema_absent:
  "call_parse None (fromEntries formData) = Inl (Some TypeError)
   \<and> parseFormData formData None = \<lparr>data = None, errors = Some TypeError\<rparr>"
  by (simp add: parseFormData_def)

end
